theory Spec2Isabelle
  imports Main
begin

section \<open>The Xiaomi Yi camera controller (src/App.tsx)\<close>

text \<open>
  The component \<open>XiaomiYiCameraApp\<close> keeps its session in React state hooks and one
  ref to the video element. Each event handler is embedded as a function from the state
  of the render it was created in to the state after the handler has run. A handler
  reads the hook variables of its own render (they are constants of that closure) and
  writes through the setters; the embedding keeps the two apart where the source does.
  The network is a parameter \<open>net\<close>: what \<open>fetch\<close> settles to for each request while
  the handler runs. Every request a handler issues is appended to the field \<open>sent\<close>,
  which the source does not have: it records the calls to \<open>fetch\<close>. Every request
  settles, to a response or to a rejection; a request that stays pending for ever is not
  modelled.
\<close>

subsection \<open>Values of the JavaScript side\<close>

text \<open>
  A parsed JSON value. Numbers are the integer-valued ones (a battery percentage);
  an object is the list of its own properties.
\<close>

datatype json =
    JNull
  | JBool bool
  | JNum int
  | JStr string
  | JArr "json list"
  | JObj "(string \<times> json) list"

datatype exn = NetworkError | SyntaxError | TypeError

text \<open>
  JavaScript truthiness, as \<open>||\<close> tests it: \<open>null\<close>, \<open>false\<close>, \<open>0\<close> and the empty
  string are falsy, every array and object is truthy.
\<close>

fun truthy :: "json \<Rightarrow> bool" where
  "truthy JNull = False"
| "truthy (JBool b) = b"
| "truthy (JNum n) = (n \<noteq> 0)"
| "truthy (JStr s) = (s \<noteq> [])"
| "truthy (JArr xs) = True"
| "truthy (JObj kvs) = True"

text \<open>
  \<open>info.key\<close> for one of the keys the source reads (\<open>model\<close>, \<open>firmware\<close>,
  \<open>battery\<close>): reading a property of \<open>null\<close> throws a TypeError, an object gives its
  own property or \<open>undefined\<close> (here \<open>None\<close>), any other value gives \<open>undefined\<close>.
\<close>

fun getProp :: "json \<Rightarrow> string \<Rightarrow> exn + json option" where
  "getProp JNull k = Inl TypeError"
| "getProp (JObj kvs) k = Inr (map_of kvs k)"
| "getProp v k = Inr None"

text \<open>\<open>v || d\<close> where \<open>v\<close> may be \<open>undefined\<close>.\<close>

fun js_or :: "json option \<Rightarrow> json \<Rightarrow> json" where
  "js_or None d = d"
| "js_or (Some v) d = (if truthy v then v else d)"

subsection \<open>Requests and responses\<close>

record request =
  httpMethod :: string
  url :: string
  headers :: "(string \<times> string) list"
  reqBody :: "json option"

text \<open>
  A response: its \<open>ok\<close> flag and what \<open>response.json()\<close> settles to (a SyntaxError when
  the body does not parse). \<open>fetch\<close> itself settles to a response or rejects.
\<close>

record response =
  ok :: bool
  body :: "exn + json"

type_synonym network = "request \<Rightarrow> exn + response"

text \<open>\<open>fetch(...).catch(() => ({ ok: true }))\<close> followed by \<open>response.ok\<close>.\<close>

fun catchOk :: "exn + response \<Rightarrow> bool" where
  "catchOk (Inl e) = True"
| "catchOk (Inr r) = ok r"

subsection \<open>The state of the component\<close>

datatype camera_status = StatusConnected | StatusDisconnected | StatusRecording

text \<open>
  The fields \<open>model\<close>, \<open>firmware\<close> and \<open>battery\<close> hold whatever value the device sent
  when that value is truthy: the interface's types are not checked at run time.
\<close>

record CameraInfo =
  ip :: string
  model :: json
  firmware :: json
  battery :: json
  status :: camera_status

record CameraSettings =
  resolution :: string
  quality :: string
  mode :: string

text \<open>The two attributes of the video element that the handlers touch.\<close>

record video =
  src :: string
  paused :: bool

record app_state =
  isConnected :: bool
  isScanning :: bool
  isRecording :: bool
  cameraInfo :: "CameraInfo option"
  cameraIP :: string
  streamUrl :: string
  error :: string
  settings :: CameraSettings
  videoRef :: "video option"
  sent :: "request list"

definition initial_state :: app_state where
  "initial_state =
     \<lparr> isConnected = False, isScanning = False, isRecording = False,
       cameraInfo = None, cameraIP = ''192.168.42.1'', streamUrl = [], error = [],
       settings = \<lparr> resolution = ''1920x1080'', quality = ''high'', mode = ''video'' \<rparr>,
       videoRef = None, sent = [] \<rparr>"

definition fetch :: "network \<Rightarrow> request \<Rightarrow> app_state \<Rightarrow> (exn + response) \<times> app_state" where
  "fetch net req s = (net req, s\<lparr>sent := sent s @ [req]\<rparr>)"

subsection \<open>connectToCamera\<close>

definition infoRequest :: "string \<Rightarrow> request" where
  "infoRequest a =
     \<lparr> httpMethod = ''GET'', url = ''http://'' @ a @ ''/camera-info'', headers = [], reqBody = None \<rparr>"

definition connectFailed :: string where
  "connectFailed =
     ''Failed to connect to camera. Please check IP address and network connection.''"

text \<open>The object literal of lines 55 to 61; it throws when \<open>info\<close> is \<open>null\<close>.\<close>

definition buildInfo :: "string \<Rightarrow> json \<Rightarrow> exn + CameraInfo" where
  "buildInfo a info =
     (case getProp info ''model'' of
        Inl e \<Rightarrow> Inl e
      | Inr m \<Rightarrow>
         (case getProp info ''firmware'' of
            Inl e \<Rightarrow> Inl e
          | Inr f \<Rightarrow>
             (case getProp info ''battery'' of
                Inl e \<Rightarrow> Inl e
              | Inr b \<Rightarrow>
                 Inr \<lparr> ip = a,
                       model = js_or m (JStr ''Xiaomi Yi Camera''),
                       firmware = js_or f (JStr ''1.4.13''),
                       battery = js_or b (JNum 85),
                       status = StatusConnected \<rparr>)))"

definition connectToCamera :: "network \<Rightarrow> string \<Rightarrow> app_state \<Rightarrow> bool \<times> app_state" where
  "connectToCamera net a s =
     (case fetch net (infoRequest a) (s\<lparr>error := []\<rparr>) of
        (Inl e, s1) \<Rightarrow> (False, s1\<lparr>error := connectFailed\<rparr>)
      | (Inr r, s1) \<Rightarrow>
          if ok r then
            (case body r of
               Inl e \<Rightarrow> (False, s1\<lparr>error := connectFailed\<rparr>)
             | Inr info \<Rightarrow>
                (case buildInfo a info of
                   Inl e \<Rightarrow> (False, s1\<lparr>error := connectFailed\<rparr>)
                 | Inr ci \<Rightarrow>
                    (True, s1\<lparr>cameraInfo := Some ci, isConnected := True,
                               streamUrl := ''http://'' @ a @ '':8080/live''\<rparr>)))
          else (False, s1))"

subsection \<open>Live view\<close>

definition previewRequest :: "CameraInfo \<Rightarrow> CameraSettings \<Rightarrow> request" where
  "previewRequest ci st =
     \<lparr> httpMethod = ''POST'', url = ''http://'' @ ip ci @ ''/start-preview'',
       headers = [(''Content-Type'', ''application/json'')],
       reqBody = Some (JObj [(''resolution'', JStr (resolution st))]) \<rparr>"

text \<open>
  \<open>playOk\<close> says whether the promise of \<open>videoRef.current.play()\<close> is fulfilled. The
  outer \<open>catch\<close> of the source is unreachable: the rejection of \<open>fetch\<close> is caught
  before \<open>await\<close> sees it.
\<close>

definition startLiveView :: "network \<Rightarrow> bool \<Rightarrow> app_state \<Rightarrow> app_state" where
  "startLiveView net playOk s =
     (case cameraInfo s of
        None \<Rightarrow> s
      | Some ci \<Rightarrow>
         (case fetch net (previewRequest ci (settings s)) s of
            (res, s1) \<Rightarrow>
              if catchOk res then
                (case videoRef s1 of
                   None \<Rightarrow> s1
                 | Some v \<Rightarrow>
                    (let v1 = v\<lparr>src := ''http://'' @ ip ci @ '':8080/live''\<rparr>
                     in if playOk then s1\<lparr>videoRef := Some (v1\<lparr>paused := False\<rparr>)\<rparr>
                        else s1\<lparr>videoRef := Some v1,
                                error := ''Live stream not available in demo mode''\<rparr>))
              else s1))"

definition stopLiveView :: "app_state \<Rightarrow> app_state" where
  "stopLiveView s =
     (case videoRef s of
        None \<Rightarrow> s
      | Some v \<Rightarrow> s\<lparr>videoRef := Some (v\<lparr>paused := True, src := []\<rparr>)\<rparr>)"

subsection \<open>Recording\<close>

definition settingsJson :: "CameraSettings \<Rightarrow> json" where
  "settingsJson st =
     JObj [(''resolution'', JStr (resolution st)), (''quality'', JStr (quality st)),
           (''mode'', JStr (mode st))]"

definition startRecordRequest :: "CameraInfo \<Rightarrow> CameraSettings \<Rightarrow> request" where
  "startRecordRequest ci st =
     \<lparr> httpMethod = ''POST'', url = ''http://'' @ ip ci @ ''/start-record'',
       headers = [(''Content-Type'', ''application/json'')],
       reqBody = Some (settingsJson st) \<rparr>"

definition stopRecordRequest :: "CameraInfo \<Rightarrow> request" where
  "stopRecordRequest ci =
     \<lparr> httpMethod = ''POST'', url = ''http://'' @ ip ci @ ''/stop-record'',
       headers = [], reqBody = None \<rparr>"

text \<open>\<open>setCameraInfo((prev) => prev ? { ...prev, status } : null)\<close>.\<close>

definition setStatus :: "camera_status \<Rightarrow> app_state \<Rightarrow> app_state" where
  "setStatus st s =
     s\<lparr>cameraInfo := (case cameraInfo s of None \<Rightarrow> None | Some prev \<Rightarrow> Some (prev\<lparr>status := st\<rparr>))\<rparr>"

text \<open>
  The two handlers in two parts each: up to \<open>await\<close>, and what runs once the awaited
  promise has settled (lines 116 to 121 and 135 to 140), where the setters act on the
  state of that moment.
\<close>

definition startRecording_settled :: "exn + response \<Rightarrow> app_state \<Rightarrow> app_state" where
  "startRecording_settled res s =
     (if catchOk res then setStatus StatusRecording (s\<lparr>isRecording := True\<rparr>) else s)"

definition startRecording :: "network \<Rightarrow> app_state \<Rightarrow> app_state" where
  "startRecording net s =
     (case cameraInfo s of
        None \<Rightarrow> s
      | Some ci \<Rightarrow>
         (case fetch net (startRecordRequest ci (settings s)) s of
            (res, s1) \<Rightarrow> startRecording_settled res s1))"

definition stopRecording_settled :: "exn + response \<Rightarrow> app_state \<Rightarrow> app_state" where
  "stopRecording_settled res s =
     (if catchOk res then setStatus StatusConnected (s\<lparr>isRecording := False\<rparr>) else s)"

definition stopRecording :: "network \<Rightarrow> app_state \<Rightarrow> app_state" where
  "stopRecording net s =
     (case cameraInfo s of
        None \<Rightarrow> s
      | Some ci \<Rightarrow>
         (case fetch net (stopRecordRequest ci) s of
            (res, s1) \<Rightarrow> stopRecording_settled res s1))"

subsection \<open>Scanning\<close>

definition commonIPs :: "string list" where
  "commonIPs = [''192.168.42.1'', ''192.168.1.100'', ''192.168.0.100'']"

definition notFound :: string where
  "notFound = ''No Xiaomi Yi cameras found on network''"

text \<open>The \<open>for\<close> loop of lines 153 to 159, over any list of addresses.\<close>

fun scanLoop :: "network \<Rightarrow> string list \<Rightarrow> app_state \<Rightarrow> app_state" where
  "scanLoop net [] s = s"
| "scanLoop net (a # as) s =
     (case connectToCamera net a s of
        (connected, s1) \<Rightarrow>
          if connected then s1\<lparr>cameraIP := a\<rparr> else scanLoop net as s1)"

text \<open>
  \<open>scanFrom\<close> is \<open>scanForCameras\<close> with the list of candidates as a parameter. The test
  after the loop reads \<open>isConnected\<close>, a constant of the render that created the
  handler: it is the value in \<open>s\<close>, before the loop, whatever the loop has set.
\<close>

definition scanFrom :: "string list \<Rightarrow> network \<Rightarrow> app_state \<Rightarrow> app_state" where
  "scanFrom candidates net s =
     (let s1 = s\<lparr>isScanning := True, error := []\<rparr>;
          s2 = scanLoop net candidates s1;
          s3 = (if \<not> isConnected s then s2\<lparr>error := notFound\<rparr> else s2)
      in s3\<lparr>isScanning := False\<rparr>)"

definition scanForCameras :: "network \<Rightarrow> app_state \<Rightarrow> app_state" where
  "scanForCameras = scanFrom commonIPs"

subsection \<open>Disconnecting, settings, the address field\<close>

definition disconnect :: "app_state \<Rightarrow> app_state" where
  "disconnect s = stopLiveView (s\<lparr>isConnected := False, cameraInfo := None, isRecording := False\<rparr>)"

text \<open>The \<open>onChange\<close> handlers of the three selects and of the address input.\<close>

definition setResolution :: "string \<Rightarrow> app_state \<Rightarrow> app_state" where
  "setResolution v s = s\<lparr>settings := (settings s)\<lparr>resolution := v\<rparr>\<rparr>"

definition setQuality :: "string \<Rightarrow> app_state \<Rightarrow> app_state" where
  "setQuality v s = s\<lparr>settings := (settings s)\<lparr>quality := v\<rparr>\<rparr>"

definition setMode :: "string \<Rightarrow> app_state \<Rightarrow> app_state" where
  "setMode v s = s\<lparr>settings := (settings s)\<lparr>mode := v\<rparr>\<rparr>"

definition setCameraIP :: "string \<Rightarrow> app_state \<Rightarrow> app_state" where
  "setCameraIP v s = s\<lparr>cameraIP := v\<rparr>"







subsection \<open>Sequences of intents\<close>

text \<open>
  After a handler has run the component renders again: the video element exists exactly
  while \<open>isConnected\<close> holds, and the ref follows it. A new element has no source and
  is paused.
\<close>

definition render :: "app_state \<Rightarrow> app_state" where
  "render s =
     s\<lparr>videoRef :=
         (if isConnected s
          then (case videoRef s of None \<Rightarrow> Some \<lparr> src = [], paused = True \<rparr> | Some v \<Rightarrow> Some v)
          else None)\<rparr>"

datatype intent =
    Connect string
  | ScanAndConnect "string list"
  | StartPreview bool
  | StopPreview
  | StartRecording
  | StopRecording
  | Disconnect
  | UpdateResolution string
  | UpdateQuality string
  | UpdateMode string
  | EditAddress string

text \<open>
  \<open>handle\<close> calls the handler of an intent as a function, with the argument the intent
  carries, whether or not the rendered page would let the user issue it.
\<close>

fun handle :: "network \<Rightarrow> intent \<Rightarrow> app_state \<Rightarrow> app_state" where
  "handle net (Connect a) s = snd (connectToCamera net a s)"
| "handle net (ScanAndConnect as) s = scanFrom as net s"
| "handle net (StartPreview playOk) s = startLiveView net playOk s"
| "handle net StopPreview s = stopLiveView s"
| "handle net StartRecording s = startRecording net s"
| "handle net StopRecording s = stopRecording net s"
| "handle net Disconnect s = disconnect s"
| "handle net (UpdateResolution v) s = setResolution v s"
| "handle net (UpdateQuality v) s = setQuality v s"
| "handle net (UpdateMode v) s = setMode v s"
| "handle net (EditAddress v) s = setCameraIP v s"

text \<open>
  One intent runs to its end, on the network as it answers during that intent, and the
  component renders before the next intent starts.
\<close>

fun run :: "(network \<times> intent) list \<Rightarrow> app_state \<Rightarrow> app_state" where
  "run [] s = s"
| "run ((net, i) # rest) s = run rest (render (handle net i s))"

subsection \<open>Networks and states used as examples\<close>

definition netDown :: network where
  "netDown req = Inl NetworkError"

definition netRefusing :: network where
  "netRefusing req = Inr \<lparr> ok = False, body = Inl SyntaxError \<rparr>"

definition netAnswering :: "json \<Rightarrow> network" where
  "netAnswering info req = Inr \<lparr> ok = True, body = Inr info \<rparr>"

text \<open>A network on which only the address \<open>a\<close> answers, with an empty object.\<close>

definition netOnly :: "string \<Rightarrow> network" where
  "netOnly a req = (if req = infoRequest a then Inr \<lparr> ok = True, body = Inr (JObj []) \<rparr>
                    else Inl NetworkError)"

definition connectedState :: app_state where
  "connectedState = run [(netAnswering (JObj []), Connect ''192.168.42.1'')] initial_state"

text \<open>
  A start of recording and a disconnect that overlap. \<open>startRecording\<close> is called while
  connected and sends its request; before the request settles the user disconnects and
  the component renders; then the request settles with an OK response and the rest of
  \<open>startRecording\<close> runs.
\<close>

definition disconnectedWhileStarting :: app_state where
  "disconnectedWhileStarting =
     (case cameraInfo connectedState of
        None \<Rightarrow> connectedState
      | Some ci \<Rightarrow>
         (case fetch (netAnswering (JObj [])) (startRecordRequest ci (settings connectedState))
                 connectedState of
            (res, s1) \<Rightarrow> startRecording_settled res (render (disconnect s1))))"

definition recordingState :: app_state where
  "recordingState =
     run [(netAnswering (JObj []), Connect ''192.168.42.1''),
          (netAnswering (JObj []), StartRecording)] initial_state"

subsection \<open>Predicates used in the statements\<close>

text \<open>
  What ties the three session fields together: there is camera information exactly while
  connected, and recording happens only while connected.
\<close>

definition session_inv :: "app_state \<Rightarrow> bool" where
  "session_inv s =
     ((isConnected s = (cameraInfo s \<noteq> None)) \<and> (isRecording s \<longrightarrow> isConnected s))"

text \<open>
  The address answers: its \<open>/camera-info\<close> request settles to an OK response whose body
  parses to a value other than \<open>null\<close>.
\<close>

definition answers :: "network \<Rightarrow> string \<Rightarrow> bool" where
  "answers net a =
     (case net (infoRequest a) of
        Inl e \<Rightarrow> False
      | Inr r \<Rightarrow> ok r \<and> (case body r of Inl e \<Rightarrow> False | Inr info \<Rightarrow> info \<noteq> JNull))"



section \<open>Properties\<close>

lemmas ex_defs =
  recordingState_def connectedState_def initial_state_def render_def startRecording_def
  stopRecording_def startRecording_settled_def stopRecording_settled_def connectToCamera_def fetch_def buildInfo_def netAnswering_def netDown_def
  netRefusing_def netOnly_def infoRequest_def setStatus_def startRecordRequest_def
  stopRecordRequest_def settingsJson_def scanForCameras_def scanFrom_def commonIPs_def
  notFound_def Let_def

subsection \<open>connectToCamera\<close>

lemma buildInfo_null: "buildInfo a JNull = Inl TypeError"
  by (simp add: buildInfo_def)

lemma buildInfo_value: "info \<noteq> JNull \<Longrightarrow> \<exists>ci. buildInfo a info = Inr ci"
  by (cases info) (simp_all add: buildInfo_def)

lemma connect_fst_answers: "fst (connectToCamera net a s) = answers net a"
proof (cases "net (infoRequest a)")
  case (Inl e)
  then show ?thesis by (simp add: connectToCamera_def fetch_def answers_def)
next
  case (Inr r)
  note settled = this
  show ?thesis
  proof (cases "body r")
    case (Inl e)
    with settled show ?thesis by (simp add: connectToCamera_def fetch_def answers_def)
  next
    case (Inr info)
    show ?thesis
    proof (cases "info = JNull")
      case True
      with Inr settled show ?thesis
        by (simp add: connectToCamera_def fetch_def answers_def buildInfo_null)
    next
      case False
      from buildInfo_value [OF False, of a] obtain ci where "buildInfo a info = Inr ci" ..
      with False Inr settled show ?thesis
        by (simp add: connectToCamera_def fetch_def answers_def)
    qed
  qed
qed

lemma connect_sent: "sent (snd (connectToCamera net a s)) = sent s @ [infoRequest a]"
  by (simp add: connectToCamera_def fetch_def split: sum.splits)

lemma connect_cameraIP: "cameraIP (snd (connectToCamera net a s)) = cameraIP s"
  by (simp add: connectToCamera_def fetch_def split: sum.splits)

lemma connect_isConnected:
  "isConnected (snd (connectToCamera net a s)) = (isConnected s \<or> fst (connectToCamera net a s))"
  by (simp add: connectToCamera_def fetch_def split: sum.splits)

subsection \<open>The session invariant\<close>

lemma initial_inv: "session_inv initial_state"
  by (auto simp: session_inv_def initial_state_def)

lemma connect_inv: "session_inv s \<Longrightarrow> session_inv (snd (connectToCamera net a s))"
  by (auto simp: session_inv_def connectToCamera_def fetch_def split: sum.splits)

lemma scanLoop_inv: "session_inv s \<Longrightarrow> session_inv (scanLoop net as s)"
proof (induction as arbitrary: s)
  case Nil
  then show ?case by simp
next
  case (Cons a as)
  obtain c s1 where r: "connectToCamera net a s = (c, s1)"
    by (cases "connectToCamera net a s")
  with connect_inv [OF Cons.prems, of net a] have i1: "session_inv s1" by simp
  show ?case
  proof (cases c)
    case True
    with i1 r show ?thesis by (auto simp: session_inv_def)
  next
    case False
    with Cons.IH [OF i1] r show ?thesis by simp
  qed
qed

lemma scanFrom_inv: "session_inv s \<Longrightarrow> session_inv (scanFrom as net s)"
proof -
  assume "session_inv s"
  then have "session_inv (s\<lparr>isScanning := True, error := []\<rparr>)"
    by (auto simp: session_inv_def)
  then have "session_inv (scanLoop net as (s\<lparr>isScanning := True, error := []\<rparr>))"
    by (rule scanLoop_inv)
  then show ?thesis by (auto simp: scanFrom_def Let_def session_inv_def)
qed

lemma startLiveView_inv: "session_inv s \<Longrightarrow> session_inv (startLiveView net p s)"
  by (auto simp: session_inv_def startLiveView_def fetch_def Let_def split: option.splits)

lemma stopLiveView_inv: "session_inv s \<Longrightarrow> session_inv (stopLiveView s)"
  by (auto simp: session_inv_def stopLiveView_def split: option.splits)

lemma startRecording_inv: "session_inv s \<Longrightarrow> session_inv (startRecording net s)"
  by (auto simp: session_inv_def startRecording_def startRecording_settled_def setStatus_def fetch_def
      split: option.splits)

lemma stopRecording_inv: "session_inv s \<Longrightarrow> session_inv (stopRecording net s)"
  by (auto simp: session_inv_def stopRecording_def stopRecording_settled_def setStatus_def fetch_def
      split: option.splits)

lemma disconnect_inv: "session_inv (disconnect s)"
  by (auto simp: session_inv_def disconnect_def stopLiveView_def split: option.splits)

lemma handle_inv:
  assumes "session_inv s"
  shows "session_inv (handle net i s)"
proof (cases i)
  case (Connect a)
  with assms show ?thesis by (simp add: connect_inv)
next
  case (ScanAndConnect as)
  with assms show ?thesis by (simp add: scanFrom_inv)
next
  case (StartPreview p)
  with assms show ?thesis by (simp add: startLiveView_inv)
next
  case StopPreview
  with assms show ?thesis by (simp add: stopLiveView_inv)
next
  case StartRecording
  with assms show ?thesis by (simp add: startRecording_inv)
next
  case StopRecording
  with assms show ?thesis by (simp add: stopRecording_inv)
next
  case Disconnect
  then show ?thesis by (simp add: disconnect_inv)
next
  case (UpdateResolution v)
  with assms show ?thesis by (auto simp: session_inv_def setResolution_def)
next
  case (UpdateQuality v)
  with assms show ?thesis by (auto simp: session_inv_def setQuality_def)
next
  case (UpdateMode v)
  with assms show ?thesis by (auto simp: session_inv_def setMode_def)
next
  case (EditAddress v)
  with assms show ?thesis by (auto simp: session_inv_def setCameraIP_def)
qed

lemma render_inv: "session_inv s \<Longrightarrow> session_inv (render s)"
  by (auto simp: session_inv_def render_def)

lemma run_inv: "session_inv s \<Longrightarrow> session_inv (run evs s)"
proof (induction evs arbitrary: s)
  case Nil
  then show ?case by simp
next
  case (Cons ev evs)
  obtain net i where ev: "ev = (net, i)" by (cases ev)
  from Cons.prems have "session_inv (render (handle net i s))"
    by (intro render_inv handle_inv)
  with Cons.IH ev show ?case by simp
qed

lemma run_connected_iff:
  "isConnected (run evs initial_state) = (cameraInfo (run evs initial_state) \<noteq> None)"
  using run_inv [OF initial_inv, of evs] by (auto simp: session_inv_def)

subsection \<open>Recording commands that fail\<close>

text \<open>
  C1, as the code has it. \<open>stopRecording\<close>, called while there is camera information,
  sends \<open>POST /stop-record\<close>. When the device answers with a status that is not OK the
  state stays as it was, apart from the record of the request: \<open>isRecording\<close> and the
  status keep their values, there is no marker of uncertainty and no error message.
  When \<open>fetch\<close> rejects (no route, or a timeout of the browser) the rejection is turned
  into \<open>{ ok: true }\<close>, so the session leaves recording: \<open>isRecording\<close> becomes false
  and the status becomes \<open>connected\<close>.
\<close>

theorem stopRecording_on_failure:
  assumes "cameraInfo s = Some ci"
  shows "(\<forall>r. net (stopRecordRequest ci) = Inr r \<and> \<not> ok r \<longrightarrow>
            stopRecording net s = s\<lparr>sent := sent s @ [stopRecordRequest ci]\<rparr>) \<and>
         (\<forall>e. net (stopRecordRequest ci) = Inl e \<longrightarrow>
            stopRecording net s =
              s\<lparr>sent := sent s @ [stopRecordRequest ci], isRecording := False,
                cameraInfo := Some (ci\<lparr>status := StatusConnected\<rparr>)\<rparr>)"
  using assms by (simp add: stopRecording_def stopRecording_settled_def fetch_def setStatus_def)

theorem stopRecording_on_failure_witness:
  "stopRecording netRefusing recordingState =
     recordingState\<lparr>sent := sent recordingState @
        [\<lparr> httpMethod = ''POST'', url = ''http://192.168.42.1/stop-record'', headers = [],
            reqBody = None \<rparr>]\<rparr> \<and>
   isRecording (stopRecording netRefusing recordingState) \<and>
   \<not> isRecording (stopRecording netDown recordingState)"
proof -
  have ci: "cameraInfo recordingState =
      Some \<lparr> ip = ''192.168.42.1'', model = JStr ''Xiaomi Yi Camera'',
             firmware = JStr ''1.4.13'', battery = JNum 85, status = StatusRecording \<rparr>"
    by (simp add: ex_defs)
  have rec: "isRecording recordingState"
    by (simp add: ex_defs)
  show ?thesis
    using stopRecording_on_failure [OF ci, of netRefusing]
      stopRecording_on_failure [OF ci, of netDown] rec
    by (simp add: netRefusing_def netDown_def stopRecordRequest_def)
qed

text \<open>
  C1 as stated fails: the session is recording, the stop request is rejected by the
  network, and the session ends up not recording, with status \<open>connected\<close>.
\<close>

theorem stopRecording_rejected_counterexample:
  "isRecording recordingState \<and> \<not> isRecording (stopRecording netDown recordingState) \<and>
   map_option status (cameraInfo (stopRecording netDown recordingState)) = Some StatusConnected"
  by (simp add: ex_defs)

text \<open>
  C2, as the code has it. \<open>startRecording\<close>, called while there is camera information,
  sends \<open>POST /start-record\<close> with the settings. When the device answers with a status
  that is not OK the state stays as it was, apart from the record of the request: the
  recording flag keeps its value and no error message is set. When \<open>fetch\<close> rejects, the
  rejection is turned into \<open>{ ok: true }\<close>: \<open>isRecording\<close> becomes true and the status
  becomes \<open>recording\<close>.
\<close>

theorem startRecording_on_failure:
  assumes "cameraInfo s = Some ci"
  shows "(\<forall>r. net (startRecordRequest ci (settings s)) = Inr r \<and> \<not> ok r \<longrightarrow>
            startRecording net s = s\<lparr>sent := sent s @ [startRecordRequest ci (settings s)]\<rparr>) \<and>
         (\<forall>e. net (startRecordRequest ci (settings s)) = Inl e \<longrightarrow>
            startRecording net s =
              s\<lparr>sent := sent s @ [startRecordRequest ci (settings s)], isRecording := True,
                cameraInfo := Some (ci\<lparr>status := StatusRecording\<rparr>)\<rparr>)"
  using assms by (simp add: startRecording_def startRecording_settled_def fetch_def setStatus_def)

theorem startRecording_on_failure_witness:
  "\<not> isRecording (startRecording netRefusing connectedState) \<and>
   error (startRecording netRefusing connectedState) = [] \<and>
   isRecording (startRecording netDown connectedState)"
proof -
  have ci: "cameraInfo connectedState =
      Some \<lparr> ip = ''192.168.42.1'', model = JStr ''Xiaomi Yi Camera'',
             firmware = JStr ''1.4.13'', battery = JNum 85, status = StatusConnected \<rparr>"
    by (simp add: ex_defs)
  have before: "\<not> isRecording connectedState" "error connectedState = []"
    by (simp_all add: ex_defs)
  show ?thesis
    using startRecording_on_failure [OF ci, of netRefusing]
      startRecording_on_failure [OF ci, of netDown] before
    by (simp add: netRefusing_def netDown_def)
qed

text \<open>
  C2 as stated fails: connected and not recording, the start request is rejected by the
  network, and the recording flag is set; and neither a rejection nor a refusal sets an
  error message.
\<close>

theorem startRecording_rejected_counterexample:
  "isConnected connectedState \<and> \<not> isRecording connectedState \<and>
   isRecording (startRecording netDown connectedState) \<and>
   error (startRecording netDown connectedState) = [] \<and>
   error (startRecording netRefusing connectedState) = []"
  by (simp add: ex_defs)

subsection \<open>Scanning\<close>

lemma scanLoop_Cons:
  "scanLoop net (a # as) s =
     (if answers net a then (snd (connectToCamera net a s))\<lparr>cameraIP := a\<rparr>
      else scanLoop net as (snd (connectToCamera net a s)))"
  using connect_fst_answers [of net a s] by (cases "connectToCamera net a s") simp

text \<open>
  The loop asks the candidates in the order of the list, up to and including the first
  one that answers, and no other.
\<close>

lemma scanLoop_sent:
  "sent (scanLoop net as s) =
     sent s @ map infoRequest
       (takeWhile (\<lambda>a. \<not> answers net a) as @ take 1 (dropWhile (\<lambda>a. \<not> answers net a) as))"
proof (induction as arbitrary: s)
  case Nil
  show ?case by simp
next
  case (Cons a as)
  show ?case
    by (simp only: scanLoop_Cons) (simp add: Cons.IH connect_sent)
qed

text \<open>The address field is set to the first candidate that answers.\<close>

lemma scanLoop_cameraIP:
  "cameraIP (scanLoop net as s) =
     (case dropWhile (\<lambda>a. \<not> answers net a) as of [] \<Rightarrow> cameraIP s | a # rest \<Rightarrow> a)"
proof (induction as arbitrary: s)
  case Nil
  show ?case by simp
next
  case (Cons a as)
  show ?case
  proof (cases "answers net a")
    case True
    then show ?thesis by (simp only: scanLoop_Cons) simp
  next
    case False
    then show ?thesis
      by (simp only: scanLoop_Cons)
        (simp add: Cons.IH [of "snd (connectToCamera net a s)"] connect_cameraIP
          cong: list.case_cong)
  qed
qed

lemma scanLoop_isConnected:
  "isConnected (scanLoop net as s) = (isConnected s \<or> (\<exists>a \<in> set as. answers net a))"
proof (induction as arbitrary: s)
  case Nil
  show ?case by simp
next
  case (Cons a as)
  show ?case
    by (simp only: scanLoop_Cons) (auto simp: Cons.IH connect_isConnected connect_fst_answers)
qed

text \<open>
  Started from a render in which the component is not connected, the scan always ends
  with the message that no camera was found, whatever the candidates answered.
\<close>

lemma scanFrom_error: "\<not> isConnected s \<Longrightarrow> error (scanFrom as net s) = notFound"
  by (simp add: scanFrom_def Let_def)

text \<open>
  C3, at an input where the code departs from it. On a network where only the third
  common address answers, \<open>scanForCameras\<close> from the initial state asks the three
  addresses in order, connects to the third and stores it as the camera address, and
  still reports that no camera was found.
\<close>

theorem scanForCameras_success_reports_notFound:
  "sent (scanForCameras (netOnly ''192.168.0.100'') initial_state) = map infoRequest commonIPs \<and>
   isConnected (scanForCameras (netOnly ''192.168.0.100'') initial_state) \<and>
   cameraIP (scanForCameras (netOnly ''192.168.0.100'') initial_state) = ''192.168.0.100'' \<and>
   error (scanForCameras (netOnly ''192.168.0.100'') initial_state) = notFound"
  by (simp add: ex_defs)

subsection \<open>Recording only while connected\<close>

text \<open>
  When each intent of a sequence has run to its end before the next one starts, a session
  that is recording is connected, on any network.
\<close>

lemma recording_implies_connected:
  "isRecording (run evs initial_state) \<longrightarrow> isConnected (run evs initial_state)"
  using run_inv [OF initial_inv, of evs] by (auto simp: session_inv_def)

lemma recording_implies_connected_example:
  "isRecording recordingState \<and> isConnected recordingState"
proof -
  have rec: "isRecording recordingState"
    by (simp add: ex_defs)
  from recording_implies_connected
         [of "[(netAnswering (JObj []), Connect ''192.168.42.1''),
               (netAnswering (JObj []), StartRecording)]"] rec
  show ?thesis by (simp add: recordingState_def)
qed

text \<open>
  C4, at an input where the code departs from it. The component is connected, recording
  is started, the user disconnects while the request is on its way, and the OK response
  sets the recording flag of a session that is no longer connected and has no camera
  information.
\<close>

theorem startRecording_settled_after_disconnect:
  "isRecording disconnectedWhileStarting \<and> \<not> isConnected disconnectedWhileStarting \<and>
   cameraInfo disconnectedWhileStarting = None"
  by (simp add: disconnectedWhileStarting_def disconnect_def stopLiveView_def ex_defs)

subsection \<open>Settings\<close>















subsection \<open>Recording while disconnected\<close>

text \<open>
  C6, as the code has it. In every state reached from the initial state in which the
  component is not connected, \<open>startRecording\<close> returns at its guard: the whole state,
  the error message and the record of requests included, is unchanged. No error is
  reported.
\<close>

theorem startRecording_while_disconnected:
  assumes "s = run evs initial_state" and "\<not> isConnected s"
  shows "startRecording net s = s"
proof -
  from assms run_connected_iff [of evs] have "cameraInfo s = None" by simp
  then show ?thesis by (simp add: startRecording_def)
qed

theorem startRecording_while_disconnected_witness:
  "\<not> isConnected (run [(netAnswering (JObj []), Connect ''192.168.42.1''),
                       (netDown, Disconnect)] initial_state) \<and>
   startRecording (netAnswering JNull)
     (run [(netAnswering (JObj []), Connect ''192.168.42.1''), (netDown, Disconnect)] initial_state)
   = run [(netAnswering (JObj []), Connect ''192.168.42.1''), (netDown, Disconnect)] initial_state"
proof -
  have d: "\<not> isConnected (run [(netAnswering (JObj []), Connect ''192.168.42.1''),
                               (netDown, Disconnect)] initial_state)"
    by (simp add: ex_defs disconnect_def stopLiveView_def)
  from startRecording_while_disconnected [OF refl d] d show ?thesis by simp
qed

text \<open>
  C6 as stated fails: from the initial, disconnected state \<open>startRecording\<close> leaves the
  error message empty.
\<close>

theorem startRecording_disconnected_counterexample:
  "\<not> isConnected initial_state \<and> error initial_state = [] \<and>
   error (startRecording (netAnswering (JObj [])) initial_state) = [] \<and>
   sent (startRecording (netAnswering (JObj [])) initial_state) = []"
  by (simp add: startRecording_def initial_state_def)

subsection \<open>Defaults of the camera information\<close>

text \<open>
  C7, as the code has it. For every OK response to \<open>/camera-info\<close> whose body parses
  to a value other than \<open>null\<close>, the connect succeeds, and each of the three fields that
  is missing from the body gets the default of the code: the model \<open>Xiaomi Yi Camera\<close>,
  the firmware \<open>1.4.13\<close>, the battery \<open>85\<close>.
\<close>

theorem connect_fills_defaults:
  assumes "net (infoRequest a) = Inr r" and "ok r" and "body r = Inr info" and "info \<noteq> JNull"
  shows "fst (connectToCamera net a s) \<and> isConnected (snd (connectToCamera net a s)) \<and>
         (\<exists>ci. cameraInfo (snd (connectToCamera net a s)) = Some ci \<and>
            (getProp info ''model'' = Inr None \<longrightarrow> model ci = JStr ''Xiaomi Yi Camera'') \<and>
            (getProp info ''firmware'' = Inr None \<longrightarrow> firmware ci = JStr ''1.4.13'') \<and>
            (getProp info ''battery'' = Inr None \<longrightarrow> battery ci = JNum 85))"
  using assms by (cases info) (simp_all add: connectToCamera_def fetch_def buildInfo_def)

theorem connect_fills_defaults_witness:
  "fst (connectToCamera (netAnswering (JObj [(''model'', JStr ''Yi4K'')])) ''192.168.42.1''
          initial_state) \<and>
   map_option firmware (cameraInfo (snd (connectToCamera
       (netAnswering (JObj [(''model'', JStr ''Yi4K'')])) ''192.168.42.1'' initial_state)))
     = Some (JStr ''1.4.13'') \<and>
   map_option battery (cameraInfo (snd (connectToCamera
       (netAnswering (JObj [(''model'', JStr ''Yi4K'')])) ''192.168.42.1'' initial_state)))
     = Some (JNum 85)"
  using connect_fills_defaults
    [of "netAnswering (JObj [(''model'', JStr ''Yi4K'')])" "''192.168.42.1''"
      "\<lparr> ok = True, body = Inr (JObj [(''model'', JStr ''Yi4K'')]) \<rparr>"
      "JObj [(''model'', JStr ''Yi4K'')]" initial_state]
  by (auto simp: netAnswering_def)

text \<open>
  C7 as stated fails: an empty object as body gives the model \<open>Xiaomi Yi Camera\<close>, the
  firmware \<open>1.4.13\<close> and the battery \<open>85\<close>, not \<open>Unknown Camera\<close>, \<open>unknown\<close> and \<open>0\<close>.
\<close>

theorem connect_defaults_counterexample:
  "cameraInfo (snd (connectToCamera (netAnswering (JObj [])) ''192.168.42.1'' initial_state)) =
     Some \<lparr> ip = ''192.168.42.1'', model = JStr ''Xiaomi Yi Camera'',
            firmware = JStr ''1.4.13'', battery = JNum 85, status = StatusConnected \<rparr> \<and>
   JStr ''Xiaomi Yi Camera'' \<noteq> JStr ''Unknown Camera'' \<and> JStr ''1.4.13'' \<noteq> JStr ''unknown'' \<and>
   JNum 85 \<noteq> JNum 0"
  by (simp add: ex_defs)

text \<open>
  C10. For every OK response to \<open>/camera-info\<close> whose body reports the battery as
  \<open>0\<close>, the connect succeeds and the stored camera information has the battery \<open>85\<close>:
  \<open>||\<close> takes the reported zero for a missing value.
\<close>

theorem battery_zero_stored_as_85:
  assumes "net (infoRequest a) = Inr r" and "ok r" and "body r = Inr info"
    and "getProp info ''battery'' = Inr (Some (JNum 0))"
  shows "fst (connectToCamera net a s) \<and>
         map_option battery (cameraInfo (snd (connectToCamera net a s))) = Some (JNum 85)"
  using assms by (cases info) (simp_all add: connectToCamera_def fetch_def buildInfo_def)

theorem battery_zero_stored_as_85_witness:
  "map_option battery (cameraInfo (snd (connectToCamera
      (netAnswering (JObj [(''model'', JStr ''Yi4K''), (''battery'', JNum 0)]))
      ''192.168.42.1'' initial_state)))
   = Some (JNum 85)"
  using battery_zero_stored_as_85
    [of "netAnswering (JObj [(''model'', JStr ''Yi4K''), (''battery'', JNum 0)])"
      "''192.168.42.1''"
      "\<lparr> ok = True, body = Inr (JObj [(''model'', JStr ''Yi4K''), (''battery'', JNum 0)]) \<rparr>"
      "JObj [(''model'', JStr ''Yi4K''), (''battery'', JNum 0)]" initial_state]
  by (simp add: netAnswering_def)

subsection \<open>Local operations\<close>

text \<open>
  C8. From every state \<open>disconnect\<close> gives a state that is not connected, has no camera
  information and is not recording; a video element that exists is paused and loses its
  source, and is gone after the next render; no request is sent, so no answer of the
  device is needed.
\<close>

theorem disconnect_resets:
  "isConnected (disconnect s) = False \<and> cameraInfo (disconnect s) = None \<and>
   isRecording (disconnect s) = False \<and>
   videoRef (disconnect s) = map_option (\<lambda>v. v\<lparr>paused := True, src := []\<rparr>) (videoRef s) \<and>
   videoRef (render (disconnect s)) = None \<and>
   sent (disconnect s) = sent s"
  by (cases "videoRef s") (simp_all add: disconnect_def stopLiveView_def render_def)

text \<open>
  C9. \<open>stopLiveView\<close> sends no request, and applying it twice gives the same state as
  applying it once, in every state.
\<close>

theorem stopLiveView_idempotent:
  "stopLiveView (stopLiveView s) = stopLiveView s \<and> sent (stopLiveView s) = sent s"
  by (cases "videoRef s") (simp_all add: stopLiveView_def)

end
